theory Spec2Isabelle
  imports Main
begin

section \<open>JavaScript values used by the trigger\<close>

subsection \<open>Strings\<close>

text \<open>
  Strings are character lists, one \<^typ>\<open>char\<close> per code unit: a \<^typ>\<open>char\<close> is the code
  unit of that value, so the strings of the model are the JavaScript strings whose code
  units are below 256. \<open>startsWith\<close>, \<open>endsWith\<close> and \<open>trim\<close> are the methods of
  \<open>String.prototype\<close> that \<open>GenericFunctions.ts\<close> calls. \<open>trim\<close> removes white space
  and line terminators at both ends; among the code units below 256 these are U+0009 to
  U+000D, U+0020 and the no-break space U+00A0.
\<close>

fun startsWith :: "string \<Rightarrow> string \<Rightarrow> bool" where
  "startsWith s [] = True"
| "startsWith [] (p # ps) = False"
| "startsWith (c # cs) (p # ps) = (c = p \<and> startsWith cs ps)"

definition endsWith :: "string \<Rightarrow> string \<Rightarrow> bool" where
  "endsWith s p = startsWith (rev s) (rev p)"

definition isWhiteSpace :: "char \<Rightarrow> bool" where
  "isWhiteSpace c =
     (c = CHR '' '' \<or> c = CHR 0x09 \<or> c = CHR 0x0A \<or> c = CHR 0x0B \<or> c = CHR 0x0C \<or> c = CHR 0x0D
      \<or> c = CHR 0xA0)"

definition trim :: "string \<Rightarrow> string" where
  "trim s = rev (dropWhile isWhiteSpace (rev (dropWhile isWhiteSpace s)))"

subsection \<open>Numbers and dates\<close>

text \<open>
  \<open>new Date(s).getTime()\<close> is the number of milliseconds since the epoch, or \<open>NaN\<close> for a
  string that is not a date. The parser belongs to the JavaScript runtime, so the filters
  take it as the parameter \<open>getTime\<close>; \<open>None\<close> is \<open>NaN\<close>. Time values are integers
  below \<open>2^53\<close>, so the additions and subtractions of the source are exact. Every
  comparison with \<open>NaN\<close> is false.
\<close>

type_synonym js_number = "int option"

type_synonym date_parser = "string \<Rightarrow> js_number"

fun num_sub :: "js_number \<Rightarrow> js_number \<Rightarrow> js_number" where
  "num_sub (Some a) (Some b) = Some (a - b)"
| "num_sub _ _ = None"

fun num_add :: "js_number \<Rightarrow> js_number \<Rightarrow> js_number" where
  "num_add (Some a) (Some b) = Some (a + b)"
| "num_add _ _ = None"

fun num_abs :: "js_number \<Rightarrow> js_number" where
  "num_abs (Some a) = Some \<bar>a\<bar>"
| "num_abs None = None"

fun num_lt :: "js_number \<Rightarrow> js_number \<Rightarrow> bool" where
  "num_lt (Some a) (Some b) = (a < b)"
| "num_lt _ _ = False"

fun num_le :: "js_number \<Rightarrow> js_number \<Rightarrow> bool" where
  "num_le (Some a) (Some b) = (a \<le> b)"
| "num_le _ _ = False"

definition num_gt :: "js_number \<Rightarrow> js_number \<Rightarrow> bool" where
  "num_gt a b = num_lt b a"

subsection \<open>Errors\<close>

text \<open>
  The classes of thrown values that \<open>poll\<close> tells apart with \<open>instanceof\<close>.
  \<open>NodeApiError\<close> carries its message and its optional description.
\<close>

datatype js_error =
    NodeApiError string "string option"
  | NodeOperationError string
  | TypeError string
  | Error string

section \<open>The data model (\<open>types.ts\<close>)\<close>

datatype resource_type = Dir | File

text \<open>\<open>IYandexDiskResource\<close>; the field \<open>type\<close> is \<open>rtype\<close> and \<open>size\<close> is \<open>size_bytes\<close> here.\<close>

record resource =
  name :: string
  path :: string
  rtype :: resource_type
  mime_type :: "string option"
  media_type :: "string option"
  created :: string
  modified :: string
  size_bytes :: "int option"

section \<open>The filters (\<open>GenericFunctions.ts\<close>)\<close>

definition filterByEventType :: "date_parser \<Rightarrow> resource list \<Rightarrow> string \<Rightarrow> resource list" where
  "filterByEventType getTime items event =
     (if event = ''all'' then items
      else if event = ''created'' then
        filter (\<lambda>item.
          let created = getTime (created item); modified = getTime (modified item)
          in num_lt (num_abs (num_sub created modified)) (Some 1000)) items
      else if event = ''updated'' then
        filter (\<lambda>item.
          let created = getTime (created item); modified = getTime (modified item)
          in num_gt modified (num_add created (Some 1000))) items
      else items)"

text \<open>
  \<open>typeMap\<close> is an object literal, so \<open>typeMap[fileType]\<close> finds its five own keys and,
  for any other key, what \<open>Object.prototype\<close> has under that name: a function or an object
  for the names of \<open>objectPrototypeKeys\<close>, \<open>undefined\<close> otherwise. An inherited value is
  truthy and has no method \<open>some\<close>, so the callback of \<open>items.filter\<close> throws a
  \<open>TypeError\<close> at the first item.
\<close>

definition typeMap :: "(string \<times> string list) list" where
  "typeMap =
     [(''document'', [''application/pdf'', ''application/msword'', ''application/vnd.'', ''text/'']),
      (''image'', [''image/'']),
      (''video'', [''video/'']),
      (''audio'', [''audio/'']),
      (''archive'', [''application/zip'', ''application/x-rar'', ''application/x-tar'',
                     ''application/gzip''])]"

definition objectPrototypeKeys :: "string list" where
  "objectPrototypeKeys =
     [''constructor'', ''hasOwnProperty'', ''isPrototypeOf'', ''propertyIsEnumerable'',
      ''toLocaleString'', ''toString'', ''valueOf'', ''__proto__'',
      ''__defineGetter__'', ''__defineSetter__'', ''__lookupGetter__'', ''__lookupSetter__'']"

definition mimeTypeOf :: "resource \<Rightarrow> string" where
  "mimeTypeOf item = (case mime_type item of Some m \<Rightarrow> m | None \<Rightarrow> [])"

definition filterByFileType :: "resource list \<Rightarrow> string \<Rightarrow> js_error + resource list" where
  "filterByFileType items fileType =
     (if fileType = ''all'' then Inr items
      else case map_of typeMap fileType of
        Some patterns \<Rightarrow>
          Inr (filter (\<lambda>item. list_ex (\<lambda>pattern. startsWith (mimeTypeOf item) pattern) patterns) items)
      | None \<Rightarrow>
          if fileType \<in> set objectPrototypeKeys then
            (if items = [] then Inr [] else Inl (TypeError ''patterns.some is not a function''))
          else
            Inr (filter (\<lambda>item. list_ex (\<lambda>pattern. startsWith (mimeTypeOf item) pattern) []) items))"

definition filterByModifiedTime ::
  "date_parser \<Rightarrow> resource list \<Rightarrow> string \<Rightarrow> string \<Rightarrow> resource list" where
  "filterByModifiedTime getTime items startDate endDate =
     (let startTime = getTime startDate; endTime = getTime endDate
      in filter (\<lambda>item.
           let modifiedTime = getTime (modified item)
           in num_gt modifiedTime startTime \<and> num_le modifiedTime endTime) items)"

definition applyLimit :: "resource list \<Rightarrow> int \<Rightarrow> resource list" where
  "applyLimit items lim = (if lim \<le> 0 then items else take (nat lim) items)"

text \<open>
  The value of the local variable \<open>normalizedPath\<close> of \<open>filterByPath\<close> after the prefix
  and the trailing slash have been dealt with (lines 111 to 125).
\<close>

definition normalizedPath :: "string \<Rightarrow> string" where
  "normalizedPath targetPath =
     (let p1 = trim targetPath;
          p2 = (if \<not> startsWith p1 ''disk:''
                then ''disk:'' @ (if \<not> startsWith p1 ''/'' then ''/'' @ p1 else p1)
                else p1)
      in if endsWith p2 ''/'' \<and> p2 \<noteq> ''disk:/'' then butlast p2 else p2)"

definition filterByPath :: "resource list \<Rightarrow> string \<Rightarrow> resource list" where
  "filterByPath items targetPath =
     (if targetPath = [] \<or> targetPath = ''/'' then items
      else if normalizedPath targetPath = ''disk:/'' then items
      else filter (\<lambda>item.
             path item = normalizedPath targetPath
             \<or> startsWith (path item) (normalizedPath targetPath @ ''/'')) items)"

section \<open>The trigger (\<open>Yandex360DiskTrigger.node.ts\<close>)\<close>

text \<open>\<open>IYandexDiskTriggerOptions\<close>: both options may be absent.\<close>

record trigger_options =
  fileType :: "string option"
  limit :: "int option"

text \<open>The decrypted credentials: \<open>oauthToken\<close> may be missing.\<close>

record credentials =
  oauthToken :: "string option"

text \<open>The argument of \<open>api.recent\<close>: \<open>limit\<close> always, \<open>media_type\<close> when it was set.\<close>

record recent_options =
  recent_limit :: int
  recent_media_type :: "string option"

text \<open>
  The body of the response of \<open>api.recent\<close>, as far as \<open>poll\<close> probes it: a body
  that is no object or has no key \<open>items\<close>, or a body whose \<open>items\<close> is an array or
  is \<open>null\<close>.
\<close>

datatype response_body = NoItemsKey | ItemsKey "resource list option"

text \<open>
  The node's static data: \<open>lastTimeChecked\<close> is absent until the first automated cycle
  has written it.
\<close>

record static_data =
  lastTimeChecked :: "string option"

text \<open>
  What one invocation of \<open>poll\<close> reads from its host and from the remote service: the
  node parameters (read successfully), the outcome of \<open>getCredentials\<close>, the string
  \<open>moment().utc().format()\<close>, the execution mode, and the behaviour of \<open>recent\<close> of
  the client that \<open>sdk({ token })\<close> builds. A rejected promise or a thrown value is
  \<open>Inl\<close>.
\<close>

record poll_env =
  param_event :: string
  param_location :: string
  param_options :: trigger_options
  param_path :: string
  getCredentials :: "js_error + credentials"
  moment_now :: string
  getMode :: string
  sdk_recent :: "string \<Rightarrow> recent_options \<Rightarrow> js_error + response_body"

datatype execution_data = Json resource

definition returnJsonArray :: "resource list \<Rightarrow> execution_data list" where
  "returnJsonArray items = map Json items"

text \<open>
  \<open>initializeYandexDiskApi\<close>: the client is identified by its token; a missing or empty
  token throws.
\<close>

definition initializeYandexDiskApi :: "credentials \<Rightarrow> js_error + string" where
  "initializeYandexDiskApi creds =
     (case oauthToken creds of
        None \<Rightarrow> Inl (Error ''OAuth token not found in credentials'')
      | Some token \<Rightarrow>
          if token = [] then Inl (Error ''OAuth token not found in credentials'')
          else Inr token)"

definition itemsOf :: "response_body \<Rightarrow> resource list" where
  "itemsOf responseBody =
     (case responseBody of
        NoItemsKey \<Rightarrow> []
      | ItemsKey None \<Rightarrow> []
      | ItemsKey (Some xs) \<Rightarrow> xs)"

text \<open>
  The first lines of the \<open>try\<close> block of the automated mode (lines 223 to 234): the
  file type and the limit with their defaults (\<open>||\<close> replaces a missing value, an empty
  string and \<open>0\<close>), and the argument of the request. \<open>FILE_TYPE_TO_MEDIA_TYPE\<close> is
  imported from \<open>types.ts\<close>, which does not declare it, so it is a parameter: the media
  type that a file type maps to, if any.
\<close>

definition fileTypeOf :: "trigger_options \<Rightarrow> string" where
  "fileTypeOf options =
     (case fileType options of
        None \<Rightarrow> ''all''
      | Some t \<Rightarrow> if t = [] then ''all'' else t)"

definition userLimitOf :: "trigger_options \<Rightarrow> int" where
  "userLimitOf options =
     (case limit options of
        None \<Rightarrow> 50
      | Some l \<Rightarrow> if l = 0 then 50 else l)"

definition recentOptionsOf :: "(string \<Rightarrow> string option) \<Rightarrow> trigger_options \<Rightarrow> recent_options" where
  "recentOptionsOf FILE_TYPE_TO_MEDIA_TYPE options =
     (let mediaType = FILE_TYPE_TO_MEDIA_TYPE (fileTypeOf options);
          apiLimit = min (userLimitOf options) 1000
      in \<lparr>recent_limit = apiLimit,
          recent_media_type =
            (case mediaType of
               None \<Rightarrow> None
             | Some m \<Rightarrow> if m = [] then None else Some m)\<rparr>)"

text \<open>
  The body of the \<open>try\<close> block of the automated mode (lines 221 to 259): the request,
  then the five filters in the order of the source.
\<close>

definition fetchAndFilter ::
  "date_parser \<Rightarrow> (string \<Rightarrow> string option) \<Rightarrow> poll_env \<Rightarrow> string \<Rightarrow> string \<Rightarrow> string
     \<Rightarrow> js_error + resource list" where
  "fetchAndFilter getTime FILE_TYPE_TO_MEDIA_TYPE env api startDate endDate =
     (let options = param_options env
      in (case sdk_recent env api (recentOptionsOf FILE_TYPE_TO_MEDIA_TYPE options) of
            Inl e \<Rightarrow> Inl e
          | Inr responseBody \<Rightarrow>
             (let items = itemsOf responseBody;
                  items = filterByModifiedTime getTime items startDate endDate;
                  items = filterByEventType getTime items (param_event env);
                  items = (if param_location env = ''specificPath''
                           then filterByPath items (param_path env) else items)
              in (case filterByFileType items (fileTypeOf options) of
                    Inl e \<Rightarrow> Inl e
                  | Inr items \<Rightarrow> Inr (applyLimit items (userLimitOf options))))))"

text \<open>The outer \<open>catch\<close> of \<open>poll\<close> (lines 276 to 286).\<close>

definition outerCatch :: "js_error \<Rightarrow> js_error" where
  "outerCatch e =
     (case e of
        NodeApiError m d \<Rightarrow> e
      | NodeOperationError m \<Rightarrow> e
      | _ \<Rightarrow> NodeApiError ''An error occurred in Yandex 360 Disk Trigger'' None)"

text \<open>The inner \<open>catch\<close> of the manual mode (lines 209 to 217).\<close>

definition manualCatch :: "js_error \<Rightarrow> js_error" where
  "manualCatch e =
     (case e of
        NodeApiError m d \<Rightarrow> e
      | _ \<Rightarrow> NodeApiError ''Failed to fetch recent files from Yandex Disk''
               (Some ''Check your OAuth credentials and try again''))"

text \<open>
  Line 183, \<open>(webhookData.lastTimeChecked as string) || now\<close>: a missing or empty
  checkpoint gives the current time.
\<close>

definition startDateOf :: "static_data \<Rightarrow> string \<Rightarrow> string" where
  "startDateOf webhookData now =
     (case lastTimeChecked webhookData of
        None \<Rightarrow> now
      | Some s \<Rightarrow> if s = [] then now else s)"

text \<open>
  \<open>poll\<close> returns the static data as it leaves them and either the thrown error or the
  returned value: \<open>None\<close> is \<open>null\<close>, \<open>Some [batch]\<close> the array with the one batch.
\<close>

definition poll ::
  "date_parser \<Rightarrow> (string \<Rightarrow> string option) \<Rightarrow> poll_env \<Rightarrow> static_data
     \<Rightarrow> static_data \<times> (js_error + execution_data list list option)" where
  "poll getTime FILE_TYPE_TO_MEDIA_TYPE env webhookData =
     (case getCredentials env of
        Inl e \<Rightarrow> (webhookData, Inl (outerCatch e))
      | Inr creds \<Rightarrow>
         (case initializeYandexDiskApi creds of
            Inl e \<Rightarrow> (webhookData, Inl (outerCatch e))
          | Inr api \<Rightarrow>
             let now = moment_now env;
                 startDate = startDateOf webhookData now;
                 endDate = now
             in if getMode env = ''manual'' then
                  (case sdk_recent env api \<lparr>recent_limit = 1, recent_media_type = None\<rparr> of
                     Inl e \<Rightarrow> (webhookData, Inl (outerCatch (manualCatch e)))
                   | Inr responseBody \<Rightarrow>
                      (let items = itemsOf responseBody
                       in if items = [] then
                            (webhookData,
                             Inl (outerCatch (manualCatch
                               (NodeApiError ''No recent files found in Yandex Disk''
                                  (Some ''Upload some files to your Yandex Disk to test this trigger'')))))
                          else (webhookData, Inr (Some [returnJsonArray items]))))
                else
                  (case fetchAndFilter getTime FILE_TYPE_TO_MEDIA_TYPE env api startDate endDate of
                     Inl e \<Rightarrow>
                       (webhookData,
                        Inl (outerCatch
                          (NodeApiError ''Failed to fetch recent files from Yandex Disk''
                             (Some ''Check your OAuth credentials and configuration''))))
                   | Inr items \<Rightarrow>
                       (webhookData\<lparr>lastTimeChecked := Some endDate\<rparr>,
                        if items \<noteq> [] then Inr (Some [returnJsonArray items]) else Inr None))))"

text \<open>
  The host calls \<open>poll\<close> serially: a run is a list of invocations, each with what it
  reads, threading the static data through.
\<close>

fun run ::
  "date_parser \<Rightarrow> (string \<Rightarrow> string option) \<Rightarrow> poll_env list \<Rightarrow> static_data \<Rightarrow> static_data" where
  "run getTime ftm [] webhookData = webhookData"
| "run getTime ftm (env # envs) webhookData =
     run getTime ftm envs (fst (poll getTime ftm env webhookData))"

text \<open>The instant that the persisted checkpoint denotes, if it is there and is a date.\<close>

definition checkpoint_time :: "date_parser \<Rightarrow> static_data \<Rightarrow> js_number" where
  "checkpoint_time getTime webhookData =
     (case lastTimeChecked webhookData of None \<Rightarrow> None | Some s \<Rightarrow> getTime s)"

section \<open>Concrete inputs\<close>

text \<open>
  A date parser that knows a few instants of the first seconds of the epoch (every other
  string is an invalid date), and resources built from a path, the two dates and the MIME
  type.
\<close>

definition example_clock :: date_parser where
  "example_clock = map_of
     [(''1970-01-01T00:00:00.000Z'', 0),
      (''1970-01-01T00:00:00.500Z'', 500),
      (''1970-01-01T00:00:01.000Z'', 1000),
      (''1970-01-01T00:00:01.500Z'', 1500),
      (''1970-01-01T00:00:02.000Z'', 2000),
      (''1970-01-01T00:00:05Z'', 5000),
      (''1970-01-01T00:00:09Z'', 9000)]"

definition example_item :: "string \<Rightarrow> string \<Rightarrow> string \<Rightarrow> string option \<Rightarrow> resource" where
  "example_item p c m mt =
     \<lparr>name = p, path = p, rtype = File, mime_type = mt, media_type = None,
      created = c, modified = m, size_bytes = None\<rparr>"

definition item_same :: resource where
  "item_same = example_item ''disk:/n8n/same.txt''
     ''1970-01-01T00:00:00.000Z'' ''1970-01-01T00:00:00.000Z'' (Some ''text/plain'')"

definition item_half :: resource where
  "item_half = example_item ''disk:/n8n/half.png''
     ''1970-01-01T00:00:00.000Z'' ''1970-01-01T00:00:00.500Z'' (Some ''image/png'')"

definition item_one :: resource where
  "item_one = example_item ''disk:/n8n123/one.txt''
     ''1970-01-01T00:00:00.000Z'' ''1970-01-01T00:00:01.000Z'' None"

definition item_late :: resource where
  "item_late = example_item ''disk:/n8n''
     ''1970-01-01T00:00:00.000Z'' ''1970-01-01T00:00:01.500Z'' (Some ''application/pdf'')"

text \<open>A resource whose path has no vendor prefix, as the mocks of the trigger's tests have.\<close>

definition item_plain :: resource where
  "item_plain = example_item ''/test-file.txt''
     ''1970-01-01T00:00:00.000Z'' ''1970-01-01T00:00:00.000Z'' None"

text \<open>
  A remote service that answers the token \<open>good-token\<close> with the four resources above and
  rejects every other token, and an automated invocation at second 5 that watches updates
  on the whole disk with the default options.
\<close>

definition example_recent :: "string \<Rightarrow> recent_options \<Rightarrow> js_error + response_body" where
  "example_recent token opts =
     (if token = ''good-token''
      then Inr (ItemsKey (Some (take (nat (recent_limit opts))
                                  [item_same, item_half, item_one, item_late])))
      else Inl (Error ''401 Unauthorized''))"

definition example_media_types :: "string \<Rightarrow> string option" where
  "example_media_types = map_of [(''image'', ''image''), (''video'', ''video''), (''audio'', ''audio'')]"

definition example_env :: poll_env where
  "example_env =
     \<lparr>param_event = ''updated'', param_location = ''root'',
      param_options = \<lparr>fileType = None, limit = None\<rparr>, param_path = ''/'',
      getCredentials = Inr \<lparr>oauthToken = Some ''good-token''\<rparr>,
      moment_now = ''1970-01-01T00:00:05Z'', getMode = ''trigger'',
      sdk_recent = example_recent\<rparr>"

definition checked_at :: "string \<Rightarrow> static_data" where
  "checked_at s = \<lparr>lastTimeChecked = Some s\<rparr>"

section \<open>Properties of the filters\<close>

lemma num_created_iff:
  "num_lt (num_abs (num_sub a b)) (Some 1000)
     \<longleftrightarrow> (\<exists>c m. a = Some c \<and> b = Some m \<and> \<bar>c - m\<bar> < 1000)"
  by (cases a; cases b) auto

lemma num_updated_iff:
  "num_gt b (num_add a (Some 1000))
     \<longleftrightarrow> (\<exists>c m. a = Some c \<and> b = Some m \<and> m - c > 1000)"
  by (cases a; cases b) (auto simp: num_gt_def)

lemma num_window_iff:
  "num_gt x s \<and> num_le x e
     \<longleftrightarrow> (\<exists>s' e' m. s = Some s' \<and> e = Some e' \<and> x = Some m \<and> s' < m \<and> m \<le> e')"
  by (cases x; cases s; cases e) (auto simp: num_gt_def)

lemma startsWith_iff: "startsWith s p \<longleftrightarrow> (\<exists>r. s = p @ r)"
  by (induction s p rule: startsWith.induct) auto

lemma endsWith_iff: "endsWith s p \<longleftrightarrow> (\<exists>r. s = r @ p)"
  unfolding endsWith_def startsWith_iff
  by (metis rev_append rev_rev_ident)

lemma trim_decomp:
  "\<exists>l r. s = l @ trim s @ r \<and> list_all isWhiteSpace l \<and> list_all isWhiteSpace r"
proof -
  let ?a = "dropWhile isWhiteSpace s"
  have 1: "s = takeWhile isWhiteSpace s @ ?a" by simp
  have 2: "rev ?a = takeWhile isWhiteSpace (rev ?a) @ dropWhile isWhiteSpace (rev ?a)" by simp
  have 3: "?a = trim s @ rev (takeWhile isWhiteSpace (rev ?a))"
    unfolding trim_def by (metis 2 rev_append rev_rev_ident)
  have 4: "list_all isWhiteSpace (takeWhile isWhiteSpace s)"
    by (simp add: list_all_iff) (meson set_takeWhileD)
  have 5: "list_all isWhiteSpace (rev (takeWhile isWhiteSpace (rev ?a)))"
    by (simp add: list_all_iff) (meson set_takeWhileD)
  show ?thesis using 1 3 4 5 by metis
qed

lemma last_dropWhile: "dropWhile P xs \<noteq> [] \<Longrightarrow> last (dropWhile P xs) = last xs"
proof -
  assume ne: "dropWhile P xs \<noteq> []"
  have "last xs = last (takeWhile P xs @ dropWhile P xs)" by simp
  also have "\<dots> = last (dropWhile P xs)" using ne by (rule last_appendR)
  finally show ?thesis by simp
qed

lemma trim_ends:
  assumes "trim s \<noteq> []"
  shows "\<not> isWhiteSpace (hd (trim s)) \<and> \<not> isWhiteSpace (last (trim s))"
proof -
  let ?a = "dropWhile isWhiteSpace s"
  let ?b = "dropWhile isWhiteSpace (rev ?a)"
  have b: "?b \<noteq> []" using assms by (simp add: trim_def)
  have a: "?a \<noteq> []"
  proof
    assume e: "?a = []"
    have "?b = []" unfolding e by simp
    with b show False by contradiction
  qed
  have "last (trim s) = hd ?b" using b by (simp add: trim_def last_rev)
  moreover have "\<not> isWhiteSpace (hd ?b)" using b by (rule hd_dropWhile)
  moreover have "hd (trim s) = last ?b" using b by (simp add: trim_def hd_rev)
  moreover have "last ?b = hd ?a" using a b by (simp add: last_dropWhile last_rev)
  moreover have "\<not> isWhiteSpace (hd ?a)" using a by (rule hd_dropWhile)
  ultimately show ?thesis by simp
qed

lemma strip_slash_root:
  "(if endsWith p2 ''/'' \<and> p2 \<noteq> ''disk:/'' then butlast p2 else p2) = ''disk:/''
     \<longleftrightarrow> p2 = ''disk:/'' \<or> p2 = ''disk://''"
  by (cases p2 rule: rev_cases) (auto simp: endsWith_iff)

lemma normalizedPath_root_iff:
  "normalizedPath p = ''disk:/'' \<longleftrightarrow> trim p \<in> {[], ''/'', ''//'', ''disk:/'', ''disk://''}"
  unfolding normalizedPath_def Let_def strip_slash_root
  by (auto simp: startsWith_iff)

lemma strip_slash_cases:
  "(if endsWith b ''/'' \<and> b \<noteq> ''disk:/'' then butlast b else b) =
   (if \<exists>b'. b = b' @ ''/'' \<and> b' \<noteq> ''disk:'' then butlast b else b)"
  by (cases b rule: rev_cases) (auto simp: endsWith_iff)

lemma prefix_cases:
  "(if \<not> startsWith t ''disk:''
    then ''disk:'' @ (if \<not> startsWith t ''/'' then ''/'' @ t else t) else t) =
   (if \<exists>r. t = ''disk:'' @ r then t
    else if \<exists>r. t = ''/'' @ r then ''disk:'' @ t
    else ''disk:/'' @ t)"
  by (simp add: startsWith_iff)

lemma normalizedPath_cases:
  "normalizedPath p =
     (let t = trim p;
          b = (if \<exists>r. t = ''disk:'' @ r then t
               else if \<exists>r. t = ''/'' @ r then ''disk:'' @ t
               else ''disk:/'' @ t)
      in if \<exists>b'. b = b' @ ''/'' \<and> b' \<noteq> ''disk:'' then butlast b else b)"
  unfolding normalizedPath_def Let_def strip_slash_cases prefix_cases ..

lemma trim_simple [simp]: "trim [] = []" "trim ''/'' = ''/''"
  by (simp_all add: trim_def isWhiteSpace_def)

lemma filterByPath_root:
  "trim targetPath \<in> {[], ''/'', ''//'', ''disk:/'', ''disk://''}
     \<Longrightarrow> filterByPath items targetPath = items"
  using normalizedPath_root_iff [of targetPath] by (simp add: filterByPath_def)

lemma filterByPath_scoped:
  "trim targetPath \<notin> {[], ''/'', ''//'', ''disk:/'', ''disk://''}
     \<Longrightarrow> filterByPath items targetPath =
         filter (\<lambda>i. path i = normalizedPath targetPath
                    \<or> (\<exists>rest. path i = normalizedPath targetPath @ ''/'' @ rest)) items"
  using normalizedPath_root_iff [of targetPath]
  by (auto simp: filterByPath_def startsWith_iff)

lemma map_of_typeMap_unknown:
  "category \<noteq> ''document'' \<Longrightarrow> category \<noteq> ''image'' \<Longrightarrow> category \<noteq> ''video'' \<Longrightarrow>
   category \<noteq> ''audio'' \<Longrightarrow> category \<noteq> ''archive'' \<Longrightarrow> map_of typeMap category = None"
  by (simp add: typeMap_def)

lemmas example_defs =
  example_clock_def example_item_def item_same_def item_half_def item_one_def item_late_def
  item_plain_def

subsection \<open>Event-type classification\<close>

text \<open>
  C5. With event \<open>created\<close> the filter keeps exactly the items whose two dates are less
  than 1000 ms apart, with event \<open>updated\<close> exactly the items modified more than 1000 ms
  after their creation, in the order of the input; every other event value returns the
  list unchanged. An item modified at its creation time or 500 ms later is kept as
  created and not as updated; an item modified 1500 ms later is kept as updated and not as
  created.
\<close>

theorem filterByEventType_classifies:
  "filterByEventType getTime items ''created'' =
     filter (\<lambda>i. \<exists>c m. getTime (created i) = Some c \<and> getTime (modified i) = Some m
                     \<and> \<bar>c - m\<bar> < 1000) items
   \<and> filterByEventType getTime items ''updated'' =
     filter (\<lambda>i. \<exists>c m. getTime (created i) = Some c \<and> getTime (modified i) = Some m
                     \<and> m - c > 1000) items
   \<and> (event \<noteq> ''created'' \<and> event \<noteq> ''updated''
        \<longrightarrow> filterByEventType getTime items event = items)
   \<and> (i \<in> set items \<and> getTime (created i) = Some c
        \<and> (getTime (modified i) = Some c \<or> getTime (modified i) = Some (c + 500))
        \<longrightarrow> i \<in> set (filterByEventType getTime items ''created'')
            \<and> i \<notin> set (filterByEventType getTime items ''updated''))
   \<and> (i \<in> set items \<and> getTime (created i) = Some c \<and> getTime (modified i) = Some (c + 1500)
        \<longrightarrow> i \<in> set (filterByEventType getTime items ''updated'')
            \<and> i \<notin> set (filterByEventType getTime items ''created''))"
  by (auto simp: filterByEventType_def Let_def num_created_iff num_updated_iff)

theorem filterByEventType_classifies_witness:
  "''deleted'' \<noteq> ''created'' \<and> ''deleted'' \<noteq> ''updated''
   \<and> filterByEventType example_clock [item_same, item_half, item_one, item_late] ''deleted''
     = [item_same, item_half, item_one, item_late]
   \<and> item_half \<in> set [item_same, item_half, item_one, item_late]
   \<and> example_clock (created item_half) = Some 0
   \<and> example_clock (modified item_half) = Some (0 + 500)
   \<and> item_late \<in> set [item_same, item_half, item_one, item_late]
   \<and> example_clock (created item_late) = Some 0
   \<and> example_clock (modified item_late) = Some (0 + 1500)
   \<and> filterByEventType example_clock [item_same, item_half, item_one, item_late] ''created''
     = [item_same, item_half]
   \<and> filterByEventType example_clock [item_same, item_half, item_one, item_late] ''updated''
     = [item_late]"
  using filterByEventType_classifies
    [of example_clock "[item_same, item_half, item_one, item_late]" "''deleted''" item_half 0]
    filterByEventType_classifies
    [of example_clock "[item_same, item_half, item_one, item_late]" "''deleted''" item_late 0]
  by (simp add: example_defs)

text \<open>
  C6, as stated: an item modified exactly 1000 ms after its creation is kept with event
  \<open>updated\<close>. The source compares with a strict \<open>>\<close>, so the item is dropped.
\<close>

theorem filterByEventType_exact_second_counterexample:
  "example_clock (created item_one) = Some 0
   \<and> example_clock (modified item_one) = Some 1000
   \<and> filterByEventType example_clock [item_one] ''updated'' = []"
  by (simp add: filterByEventType_def example_defs num_gt_def)

text \<open>
  C6, amended: an item modified exactly 1000 ms after its creation is kept neither with
  event \<open>updated\<close> (the test \<open>modified > created + 1000\<close> is strict) nor with event
  \<open>created\<close> (the test \<open>|created - modified| < 1000\<close> is strict); it is kept with every
  other event value.
\<close>

theorem filterByEventType_exact_second:
  assumes "getTime (created i) = Some c" and "getTime (modified i) = Some (c + 1000)"
  shows "i \<notin> set (filterByEventType getTime items ''updated'')
         \<and> i \<notin> set (filterByEventType getTime items ''created'')
         \<and> (i \<in> set items \<and> event \<noteq> ''created'' \<and> event \<noteq> ''updated''
              \<longrightarrow> i \<in> set (filterByEventType getTime items event))"
  using assms by (auto simp: filterByEventType_def Let_def num_created_iff num_updated_iff)

theorem filterByEventType_exact_second_witness:
  "example_clock (created item_one) = Some 0
   \<and> example_clock (modified item_one) = Some (0 + 1000)
   \<and> item_one \<notin> set (filterByEventType example_clock [item_same, item_one] ''updated'')
   \<and> item_one \<notin> set (filterByEventType example_clock [item_same, item_one] ''created'')
   \<and> item_one \<in> set (filterByEventType example_clock [item_same, item_one] ''all'')"
proof -
  have c: "example_clock (created item_one) = Some 0"
    by (simp add: example_defs)
  have m: "example_clock (modified item_one) = Some (0 + 1000)"
    by (simp add: example_defs)
  show ?thesis
    using c m filterByEventType_exact_second [OF c m, of "[item_same, item_one]" "''all''"]
    by simp
qed

text \<open>
  C10. No item is kept both with event \<open>created\<close> and with event \<open>updated\<close>: the two
  tests exclude each other, whatever the dates are.
\<close>

theorem filterByEventType_created_updated_disjoint:
  "set (filterByEventType getTime items ''created'')
     \<inter> set (filterByEventType getTime items ''updated'') = {}"
  by (auto simp: filterByEventType_def Let_def num_created_iff num_updated_iff)

theorem filterByEventType_created_updated_disjoint_witness:
  "set (filterByEventType example_clock [item_same, item_half, item_one, item_late] ''created'')
     \<inter> set (filterByEventType example_clock [item_same, item_half, item_one, item_late] ''updated'')
   = {}"
  using filterByEventType_created_updated_disjoint
    [of example_clock "[item_same, item_half, item_one, item_late]"]
  by simp

subsection \<open>Modification-time window\<close>

text \<open>
  C7, as stated: for every pair of timestamps an item modified exactly at the end of the
  window is kept. When the start and the end of the window are the same instant, as in
  the first cycle of a node (no checkpoint yet, so both are the current time), the item
  is modified exactly at the start as well, and the source drops it.
\<close>

theorem filterByModifiedTime_window_end_counterexample:
  "example_clock (modified item_late) = example_clock ''1970-01-01T00:00:01.500Z''
   \<and> filterByModifiedTime example_clock [item_late]
        ''1970-01-01T00:00:01.500Z'' ''1970-01-01T00:00:01.500Z'' = []"
  by (simp add: filterByModifiedTime_def example_defs num_gt_def)

text \<open>
  C7, amended. The filter keeps exactly the items whose modification time \<open>m\<close> satisfies
  \<open>start < m \<le> end\<close>, in the order of the input. An item modified exactly at the start
  is dropped; an item modified exactly at the end is kept when the start is before the
  end; when the start and the end are the same instant nothing is kept.
\<close>

theorem filterByModifiedTime_window:
  "filterByModifiedTime getTime items startDate endDate =
     filter (\<lambda>i. \<exists>s e m. getTime startDate = Some s \<and> getTime endDate = Some e
                     \<and> getTime (modified i) = Some m \<and> s < m \<and> m \<le> e) items
   \<and> (getTime (modified i) = getTime startDate
        \<longrightarrow> i \<notin> set (filterByModifiedTime getTime items startDate endDate))
   \<and> (i \<in> set items \<and> getTime startDate = Some s \<and> getTime endDate = Some e \<and> s < e
        \<and> getTime (modified i) = Some e
        \<longrightarrow> i \<in> set (filterByModifiedTime getTime items startDate endDate))
   \<and> (getTime startDate = getTime endDate
        \<longrightarrow> filterByModifiedTime getTime items startDate endDate = [])"
proof (intro conjI)
  show "filterByModifiedTime getTime items startDate endDate =
     filter (\<lambda>i. \<exists>s e m. getTime startDate = Some s \<and> getTime endDate = Some e
                     \<and> getTime (modified i) = Some m \<and> s < m \<and> m \<le> e) items"
    by (simp add: filterByModifiedTime_def Let_def num_window_iff)
next
  show "getTime (modified i) = getTime startDate
        \<longrightarrow> i \<notin> set (filterByModifiedTime getTime items startDate endDate)"
    by (auto simp: filterByModifiedTime_def Let_def num_window_iff)
next
  show "i \<in> set items \<and> getTime startDate = Some s \<and> getTime endDate = Some e \<and> s < e
        \<and> getTime (modified i) = Some e
        \<longrightarrow> i \<in> set (filterByModifiedTime getTime items startDate endDate)"
    by (auto simp: filterByModifiedTime_def Let_def num_window_iff)
next
  show "getTime startDate = getTime endDate
        \<longrightarrow> filterByModifiedTime getTime items startDate endDate = []"
    by (auto simp: filterByModifiedTime_def Let_def num_window_iff filter_empty_conv)
qed

theorem filterByModifiedTime_window_witness:
  "example_clock (modified item_half) = example_clock ''1970-01-01T00:00:00.500Z''
   \<and> item_half \<notin> set (filterByModifiedTime example_clock
        [item_same, item_half, item_one, item_late]
        ''1970-01-01T00:00:00.500Z'' ''1970-01-01T00:00:01.500Z'')
   \<and> item_late \<in> set [item_same, item_half, item_one, item_late]
   \<and> example_clock ''1970-01-01T00:00:00.500Z'' = Some 500
   \<and> example_clock ''1970-01-01T00:00:01.500Z'' = Some 1500
   \<and> (500 :: int) < 1500
   \<and> example_clock (modified item_late) = Some 1500
   \<and> item_late \<in> set (filterByModifiedTime example_clock
        [item_same, item_half, item_one, item_late]
        ''1970-01-01T00:00:00.500Z'' ''1970-01-01T00:00:01.500Z'')
   \<and> filterByModifiedTime example_clock [item_same, item_half, item_one, item_late]
        ''1970-01-01T00:00:00.500Z'' ''1970-01-01T00:00:01.500Z''
      = [item_one, item_late]
   \<and> example_clock ''1970-01-01T00:00:05Z'' = example_clock ''1970-01-01T00:00:05Z''
   \<and> filterByModifiedTime example_clock [item_same, item_half, item_one, item_late]
        ''1970-01-01T00:00:05Z'' ''1970-01-01T00:00:05Z'' = []"
  using filterByModifiedTime_window
    [of example_clock "[item_same, item_half, item_one, item_late]"
        "''1970-01-01T00:00:00.500Z''" "''1970-01-01T00:00:01.500Z''" item_half 500 1500]
    filterByModifiedTime_window
    [of example_clock "[item_same, item_half, item_one, item_late]"
        "''1970-01-01T00:00:00.500Z''" "''1970-01-01T00:00:01.500Z''" item_late 500 1500]
    filterByModifiedTime_window
    [of example_clock "[item_same, item_half, item_one, item_late]"
        "''1970-01-01T00:00:05Z''" "''1970-01-01T00:00:05Z''"]
  by (simp add: example_defs)

subsection \<open>Media-type filter\<close>

text \<open>
  C4, as stated: an unrecognized category passes every item through. The source resolves
  such a category to the empty list of prefixes, which no MIME type matches: the image is
  dropped.
\<close>

theorem filterByFileType_unknown_counterexample:
  "filterByFileType [item_half] ''spreadsheet'' = Inr []
   \<and> filterByFileType [item_half] ''spreadsheet'' \<noteq> Inr [item_half]"
  by (simp add: filterByFileType_def typeMap_def objectPrototypeKeys_def)

text \<open>
  C4, amended: the category \<open>all\<close> returns the list unchanged; each of \<open>document\<close>,
  \<open>image\<close>, \<open>video\<close>, \<open>audio\<close> and \<open>archive\<close> keeps exactly the items whose MIME type
  starts with one of the prefixes of that category, in the order of the input; any other
  category that \<open>typeMap\<close> does not resolve keeps no item; and an item without MIME type
  is never kept under a category other than \<open>all\<close>.
\<close>

theorem filterByFileType_categories:
  "filterByFileType items ''all'' = Inr items
   \<and> filterByFileType items ''document'' =
       Inr (filter (\<lambda>i. \<exists>m r. mime_type i = Some m
              \<and> (m = ''application/pdf'' @ r \<or> m = ''application/msword'' @ r
                 \<or> m = ''application/vnd.'' @ r \<or> m = ''text/'' @ r)) items)
   \<and> filterByFileType items ''image'' =
       Inr (filter (\<lambda>i. \<exists>m r. mime_type i = Some m \<and> m = ''image/'' @ r) items)
   \<and> filterByFileType items ''video'' =
       Inr (filter (\<lambda>i. \<exists>m r. mime_type i = Some m \<and> m = ''video/'' @ r) items)
   \<and> filterByFileType items ''audio'' =
       Inr (filter (\<lambda>i. \<exists>m r. mime_type i = Some m \<and> m = ''audio/'' @ r) items)
   \<and> filterByFileType items ''archive'' =
       Inr (filter (\<lambda>i. \<exists>m r. mime_type i = Some m
              \<and> (m = ''application/zip'' @ r \<or> m = ''application/x-rar'' @ r
                 \<or> m = ''application/x-tar'' @ r \<or> m = ''application/gzip'' @ r)) items)
   \<and> (category \<noteq> ''all'' \<and> category \<noteq> ''document'' \<and> category \<noteq> ''image''
        \<and> category \<noteq> ''video'' \<and> category \<noteq> ''audio'' \<and> category \<noteq> ''archive''
        \<and> category \<notin> set objectPrototypeKeys
        \<longrightarrow> filterByFileType items category = Inr [])
   \<and> (category \<noteq> ''all'' \<and> mime_type i = None \<and> filterByFileType items category = Inr kept
        \<longrightarrow> i \<notin> set kept)"
proof (intro conjI)
  show "filterByFileType items ''all'' = Inr items"
    by (simp add: filterByFileType_def)
next
  show "filterByFileType items ''document'' =
       Inr (filter (\<lambda>i. \<exists>m r. mime_type i = Some m
              \<and> (m = ''application/pdf'' @ r \<or> m = ''application/msword'' @ r
                 \<or> m = ''application/vnd.'' @ r \<or> m = ''text/'' @ r)) items)"
    apply (simp add: filterByFileType_def typeMap_def startsWith_iff mimeTypeOf_def)
    apply (rule filter_cong, simp)
    apply (auto split: option.splits)
    done
next
  show "filterByFileType items ''image'' =
       Inr (filter (\<lambda>i. \<exists>m r. mime_type i = Some m \<and> m = ''image/'' @ r) items)"
    apply (simp add: filterByFileType_def typeMap_def startsWith_iff mimeTypeOf_def)
    apply (rule filter_cong, simp)
    apply (auto split: option.splits)
    done
next
  show "filterByFileType items ''video'' =
       Inr (filter (\<lambda>i. \<exists>m r. mime_type i = Some m \<and> m = ''video/'' @ r) items)"
    apply (simp add: filterByFileType_def typeMap_def startsWith_iff mimeTypeOf_def)
    apply (rule filter_cong, simp)
    apply (auto split: option.splits)
    done
next
  show "filterByFileType items ''audio'' =
       Inr (filter (\<lambda>i. \<exists>m r. mime_type i = Some m \<and> m = ''audio/'' @ r) items)"
    apply (simp add: filterByFileType_def typeMap_def startsWith_iff mimeTypeOf_def)
    apply (rule filter_cong, simp)
    apply (auto split: option.splits)
    done
next
  show "filterByFileType items ''archive'' =
       Inr (filter (\<lambda>i. \<exists>m r. mime_type i = Some m
              \<and> (m = ''application/zip'' @ r \<or> m = ''application/x-rar'' @ r
                 \<or> m = ''application/x-tar'' @ r \<or> m = ''application/gzip'' @ r)) items)"
    apply (simp add: filterByFileType_def typeMap_def startsWith_iff mimeTypeOf_def)
    apply (rule filter_cong, simp)
    apply (auto split: option.splits)
    done
next
  show "category \<noteq> ''all'' \<and> category \<noteq> ''document'' \<and> category \<noteq> ''image''
        \<and> category \<noteq> ''video'' \<and> category \<noteq> ''audio'' \<and> category \<noteq> ''archive''
        \<and> category \<notin> set objectPrototypeKeys
        \<longrightarrow> filterByFileType items category = Inr []"
    by (simp add: filterByFileType_def map_of_typeMap_unknown)
next
  show "category \<noteq> ''all'' \<and> mime_type i = None \<and> filterByFileType items category = Inr kept
        \<longrightarrow> i \<notin> set kept"
    apply (auto simp: filterByFileType_def mimeTypeOf_def split: option.splits if_splits)
    apply (auto simp: typeMap_def split: if_splits)
    done
qed

theorem filterByFileType_categories_witness:
  "filterByFileType [item_same, item_half, item_one, item_late] ''image'' = Inr [item_half]
   \<and> filterByFileType [item_same, item_half, item_one, item_late] ''document''
       = Inr [item_same, item_late]
   \<and> ''spreadsheet'' \<notin> set objectPrototypeKeys
   \<and> filterByFileType [item_same, item_half, item_one, item_late] ''spreadsheet'' = Inr []
   \<and> ''document'' \<noteq> ''all''
   \<and> mime_type item_one = None
   \<and> item_one \<notin> set [item_same, item_late]"
  using filterByFileType_categories
    [of "[item_same, item_half, item_one, item_late]" "''spreadsheet''" item_one "[]"]
    filterByFileType_categories
    [of "[item_same, item_half, item_one, item_late]" "''document''" item_one
        "[item_same, item_late]"]
  by (simp add: example_defs objectPrototypeKeys_def)

subsection \<open>Path scope\<close>

text \<open>
  C8. The configured path is trimmed (white space is removed at both ends); a trimmed
  path that does not start with \<open>disk:\<close> gets \<open>disk:\<close> in front, after a \<open>/\<close> if it
  does not start with one; one trailing slash is removed unless the path is \<open>disk:/\<close>.
  A scope whose trimmed path is empty, \<open>/\<close>, \<open>//\<close>, \<open>disk:/\<close> or \<open>disk://\<close> is the
  root and returns the list unchanged; every other scope keeps exactly the items whose
  path is the normalized path or starts with the normalized path followed by \<open>/\<close>, in
  the order of the input. The prefix \<open>disk:\<close> alone keeps the paths \<open>disk:\<close> and
  \<open>disk:/...\<close>, which are all the items of a list of resources of the disk, whose paths
  carry the vendor prefix \<open>disk:/\<close>. Matching is exact on segments: a path that
  continues the normalized path with another character than \<open>/\<close> is dropped, so the
  scope \<open>n8n\<close> keeps \<open>disk:/n8n\<close> and \<open>disk:/n8n/...\<close> and nothing else.
\<close>

theorem filterByPath_scope:
  "(trim targetPath \<in> {[], ''/'', ''//'', ''disk:/'', ''disk://''}
      \<longrightarrow> filterByPath items targetPath = items)
   \<and> (trim targetPath \<notin> {[], ''/'', ''//'', ''disk:/'', ''disk://''}
      \<longrightarrow> filterByPath items targetPath =
          filter (\<lambda>i. path i = normalizedPath targetPath
                     \<or> (\<exists>rest. path i = normalizedPath targetPath @ ''/'' @ rest)) items)
   \<and> (trim targetPath \<notin> {[], ''/'', ''//'', ''disk:/'', ''disk://''}
        \<and> c \<noteq> CHR ''/'' \<and> path i = normalizedPath targetPath @ c # suffix
      \<longrightarrow> i \<notin> set (filterByPath items targetPath))
   \<and> normalizedPath targetPath =
       (let t = trim targetPath;
            b = (if \<exists>r. t = ''disk:'' @ r then t
                 else if \<exists>r. t = ''/'' @ r then ''disk:'' @ t
                 else ''disk:/'' @ t)
        in if \<exists>b'. b = b' @ ''/'' \<and> b' \<noteq> ''disk:'' then butlast b else b)
   \<and> (\<exists>l r. targetPath = l @ trim targetPath @ r
          \<and> list_all isWhiteSpace l \<and> list_all isWhiteSpace r)
   \<and> (trim targetPath \<noteq> []
      \<longrightarrow> \<not> isWhiteSpace (hd (trim targetPath)) \<and> \<not> isWhiteSpace (last (trim targetPath)))
   \<and> filterByPath items ''disk:'' =
       filter (\<lambda>i. path i = ''disk:'' \<or> (\<exists>rest. path i = ''disk:/'' @ rest)) items
   \<and> ((\<forall>i \<in> set items. startsWith (path i) ''disk:/'')
      \<longrightarrow> filterByPath items ''disk:'' = items)
   \<and> filterByPath items ''n8n'' =
       filter (\<lambda>i. path i = ''disk:/n8n'' \<or> (\<exists>rest. path i = ''disk:/n8n/'' @ rest)) items"
proof (intro conjI)
  show "trim targetPath \<in> {[], ''/'', ''//'', ''disk:/'', ''disk://''}
      \<longrightarrow> filterByPath items targetPath = items"
    using filterByPath_root by blast
next
  show "trim targetPath \<notin> {[], ''/'', ''//'', ''disk:/'', ''disk://''}
      \<longrightarrow> filterByPath items targetPath =
          filter (\<lambda>i. path i = normalizedPath targetPath
                     \<or> (\<exists>rest. path i = normalizedPath targetPath @ ''/'' @ rest)) items"
    using filterByPath_scoped by blast
next
  show "trim targetPath \<notin> {[], ''/'', ''//'', ''disk:/'', ''disk://''}
        \<and> c \<noteq> CHR ''/'' \<and> path i = normalizedPath targetPath @ c # suffix
      \<longrightarrow> i \<notin> set (filterByPath items targetPath)"
    by (auto simp: filterByPath_scoped)
next
  show "normalizedPath targetPath =
       (let t = trim targetPath;
            b = (if \<exists>r. t = ''disk:'' @ r then t
                 else if \<exists>r. t = ''/'' @ r then ''disk:'' @ t
                 else ''disk:/'' @ t)
        in if \<exists>b'. b = b' @ ''/'' \<and> b' \<noteq> ''disk:'' then butlast b else b)"
    by (rule normalizedPath_cases)
next
  show "\<exists>l r. targetPath = l @ trim targetPath @ r
          \<and> list_all isWhiteSpace l \<and> list_all isWhiteSpace r"
    by (rule trim_decomp)
next
  show "trim targetPath \<noteq> []
      \<longrightarrow> \<not> isWhiteSpace (hd (trim targetPath)) \<and> \<not> isWhiteSpace (last (trim targetPath))"
    using trim_ends by blast
next
  have t: "trim ''disk:'' = ''disk:''"
    by (simp add: trim_def isWhiteSpace_def)
  have n: "normalizedPath ''disk:'' = ''disk:''"
    by (simp add: normalizedPath_def t endsWith_def)
  show d: "filterByPath items ''disk:'' =
       filter (\<lambda>i. path i = ''disk:'' \<or> (\<exists>rest. path i = ''disk:/'' @ rest)) items"
    using filterByPath_scoped [of "''disk:''" items] by (simp add: t n)
  show "(\<forall>i \<in> set items. startsWith (path i) ''disk:/'')
      \<longrightarrow> filterByPath items ''disk:'' = items"
    unfolding d by (auto simp: startsWith_iff filter_id_conv)
next
  have t: "trim ''n8n'' = ''n8n''"
    by (simp add: trim_def isWhiteSpace_def)
  have n: "normalizedPath ''n8n'' = ''disk:/n8n''"
    by (simp add: normalizedPath_def t endsWith_def)
  show "filterByPath items ''n8n'' =
       filter (\<lambda>i. path i = ''disk:/n8n'' \<or> (\<exists>rest. path i = ''disk:/n8n/'' @ rest)) items"
    using filterByPath_scoped [of "''n8n''" items] by (simp add: t n)
qed

theorem filterByPath_scope_witness:
  "trim ''  n8n/ '' = ''n8n/''
   \<and> normalizedPath ''  n8n/ '' = ''disk:/n8n''
   \<and> CHR ''1'' \<noteq> CHR ''/''
   \<and> path item_one = normalizedPath ''  n8n/ '' @ CHR ''1'' # ''23/one.txt''
   \<and> filterByPath [item_plain, item_same, item_half, item_one, item_late] ''  n8n/ ''
       = [item_same, item_half, item_late]
   \<and> trim '' / '' = ''/''
   \<and> filterByPath [item_plain, item_same, item_half, item_one, item_late] '' / ''
       = [item_plain, item_same, item_half, item_one, item_late]
   \<and> filterByPath [item_plain, item_same, item_half, item_one, item_late] ''n8n''
       = [item_same, item_half, item_late]
   \<and> filterByPath [item_plain, item_same, item_half, item_one, item_late] ''disk:''
       = [item_same, item_half, item_one, item_late]
   \<and> startsWith (path item_same) ''disk:/'' \<and> startsWith (path item_half) ''disk:/''
   \<and> startsWith (path item_one) ''disk:/'' \<and> startsWith (path item_late) ''disk:/''
   \<and> filterByPath [item_same, item_half, item_one, item_late] ''disk:''
       = [item_same, item_half, item_one, item_late]
   \<and> trim [CHR 0xA0, CHR 0x09] = []
   \<and> filterByPath [item_plain, item_same, item_half, item_one, item_late] [CHR 0xA0, CHR 0x09]
       = [item_plain, item_same, item_half, item_one, item_late]"
proof -
  have w: "trim [CHR 0xA0, CHR 0x09] = []"
    by (simp add: trim_def isWhiteSpace_def)
  have t: "trim ''  n8n/ '' = ''n8n/''"
    by (simp add: trim_def isWhiteSpace_def)
  have n: "normalizedPath ''  n8n/ '' = ''disk:/n8n''"
    by (simp add: normalizedPath_def t endsWith_def)
  have r: "trim '' / '' = ''/''"
    by (simp add: trim_def isWhiteSpace_def)
  have v: "\<forall>i \<in> set [item_same, item_half, item_one, item_late]. startsWith (path i) ''disk:/''"
    by (simp add: example_defs)
  have a: "filterByPath [item_same, item_half, item_one, item_late] ''disk:''
       = [item_same, item_half, item_one, item_late]"
    using v filterByPath_scope
      [of "''disk:''" "[item_same, item_half, item_one, item_late]"]
    by blast
  have b: "filterByPath [item_plain, item_same, item_half, item_one, item_late]
             [CHR 0xA0, CHR 0x09]
           = [item_plain, item_same, item_half, item_one, item_late]"
    using filterByPath_scope
      [of "[CHR 0xA0, CHR 0x09]" "[item_plain, item_same, item_half, item_one, item_late]"]
    by (simp add: w)
  have v': "startsWith (path item_same) ''disk:/'' \<and> startsWith (path item_half) ''disk:/''
            \<and> startsWith (path item_one) ''disk:/'' \<and> startsWith (path item_late) ''disk:/''"
    using v by simp
  show ?thesis
    using v' a w b filterByPath_scope
      [of "''  n8n/ ''" "[item_plain, item_same, item_half, item_one, item_late]"
          "CHR ''1''" item_one "''23/one.txt''"]
      filterByPath_scope
      [of "'' / ''" "[item_plain, item_same, item_half, item_one, item_late]"]
    by (simp add: t n r example_defs)
qed

section \<open>Properties of the trigger\<close>

lemmas poll_example_defs =
  example_env_def example_recent_def example_media_types_def checked_at_def

lemmas poll_defs =
  poll_def fetchAndFilter_def recentOptionsOf_def fileTypeOf_def userLimitOf_def startDateOf_def
  initializeYandexDiskApi_def itemsOf_def outerCatch_def manualCatch_def returnJsonArray_def

lemma poll_manual_state: "getMode env = ''manual'' \<Longrightarrow> fst (poll getTime ftm env webhookData) = webhookData"
  by (simp add: poll_def Let_def split: sum.splits)

lemma poll_error_state:
  "poll getTime ftm env webhookData = (webhookData', Inl e) \<Longrightarrow> webhookData' = webhookData"
  by (auto simp: poll_def Let_def split: sum.splits if_splits)

lemma poll_automated_success:
  assumes "getMode env \<noteq> ''manual''" and "poll getTime ftm env webhookData = (webhookData', Inr result)"
  shows "\<exists>creds api items.
           getCredentials env = Inr creds \<and> initializeYandexDiskApi creds = Inr api
           \<and> fetchAndFilter getTime ftm env api (startDateOf webhookData (moment_now env)) (moment_now env) = Inr items
           \<and> webhookData' = webhookData\<lparr>lastTimeChecked := Some (moment_now env)\<rparr>
           \<and> result = (if items \<noteq> [] then Some [returnJsonArray items] else None)"
  using assms by (auto simp: poll_def Let_def split: sum.splits if_splits)


lemma poll_automated_forward:
  assumes "getMode env \<noteq> ''manual''"
    and "getCredentials env = Inr creds" and "initializeYandexDiskApi creds = Inr api"
    and "fetchAndFilter getTime ftm env api
           (startDateOf webhookData (moment_now env)) (moment_now env) = Inr items"
  shows "poll getTime ftm env webhookData =
           (webhookData\<lparr>lastTimeChecked := Some (moment_now env)\<rparr>,
            if items \<noteq> [] then Inr (Some [returnJsonArray items]) else Inr None)"
  using assms by (simp add: poll_def Let_def)

lemma poll_error_class:
  "poll getTime ftm env webhookData = (webhookData', Inl e)
     \<Longrightarrow> (\<exists>m d. e = NodeApiError m d) \<or> (\<exists>m. e = NodeOperationError m)"
  by (auto simp: poll_def Let_def outerCatch_def manualCatch_def
      split: sum.splits if_splits js_error.splits)

lemma poll_fetch_failure:
  assumes "getMode env \<noteq> ''manual''"
    and "getCredentials env = Inr creds" and "initializeYandexDiskApi creds = Inr api"
    and "sdk_recent env api (recentOptionsOf ftm (param_options env)) = Inl err"
  shows "poll getTime ftm env webhookData =
           (webhookData, Inl (NodeApiError ''Failed to fetch recent files from Yandex Disk''
                                (Some ''Check your OAuth credentials and configuration'')))"
  using assms by (simp add: poll_def fetchAndFilter_def Let_def outerCatch_def)

lemma example_fetch_empty:
  "fetchAndFilter example_clock example_media_types example_env ''good-token''
     ''1970-01-01T00:00:02.000Z'' ''1970-01-01T00:00:05Z'' = Inr []"
  by (simp add: poll_defs poll_example_defs example_defs filterByModifiedTime_def
      filterByEventType_def filterByFileType_def applyLimit_def num_gt_def)

lemma example_poll_empty:
  "poll example_clock example_media_types example_env (checked_at ''1970-01-01T00:00:02.000Z'')
     = (checked_at ''1970-01-01T00:00:05Z'', Inr None)"
  by (simp add: poll_def startDateOf_def initializeYandexDiskApi_def returnJsonArray_def
      checked_at_def example_env_def example_fetch_empty [unfolded example_env_def])

subsection \<open>Checkpoint\<close>

text \<open>
  C1. An automated cycle that returns (a batch or \<open>null\<close>) leaves \<open>lastTimeChecked\<close>
  set to the time string captured at the start of the cycle, whatever the filters kept;
  so if that time is not before the stored checkpoint, the checkpoint after the cycle is
  not before the checkpoint before it. And a cycle whose request and filters complete
  does write that time, whether the filters kept items or not.
\<close>

theorem poll_automated_checkpoint:
  assumes "getMode env \<noteq> ''manual''"
  shows "(poll getTime ftm env webhookData = (webhookData', Inr result)
          \<longrightarrow> lastTimeChecked webhookData' = Some (moment_now env)
              \<and> checkpoint_time getTime webhookData' = getTime (moment_now env)
              \<and> (num_le (checkpoint_time getTime webhookData) (getTime (moment_now env))
                   \<longrightarrow> num_le (checkpoint_time getTime webhookData)
                         (checkpoint_time getTime webhookData')))
         \<and> (getCredentials env = Inr creds \<and> initializeYandexDiskApi creds = Inr api
             \<and> fetchAndFilter getTime ftm env api
                  (startDateOf webhookData (moment_now env)) (moment_now env) = Inr items
          \<longrightarrow> fst (poll getTime ftm env webhookData)
                = webhookData\<lparr>lastTimeChecked := Some (moment_now env)\<rparr>)"
proof (rule conjI)
  show "poll getTime ftm env webhookData = (webhookData', Inr result)
          \<longrightarrow> lastTimeChecked webhookData' = Some (moment_now env)
              \<and> checkpoint_time getTime webhookData' = getTime (moment_now env)
              \<and> (num_le (checkpoint_time getTime webhookData) (getTime (moment_now env))
                   \<longrightarrow> num_le (checkpoint_time getTime webhookData)
                         (checkpoint_time getTime webhookData'))"
  proof (rule impI)
    assume p: "poll getTime ftm env webhookData = (webhookData', Inr result)"
    show "lastTimeChecked webhookData' = Some (moment_now env)
          \<and> checkpoint_time getTime webhookData' = getTime (moment_now env)
          \<and> (num_le (checkpoint_time getTime webhookData) (getTime (moment_now env))
               \<longrightarrow> num_le (checkpoint_time getTime webhookData)
                     (checkpoint_time getTime webhookData'))"
      using poll_automated_success [OF assms p] by (auto simp: checkpoint_time_def)
  qed
next
  show "getCredentials env = Inr creds \<and> initializeYandexDiskApi creds = Inr api
             \<and> fetchAndFilter getTime ftm env api
                  (startDateOf webhookData (moment_now env)) (moment_now env) = Inr items
          \<longrightarrow> fst (poll getTime ftm env webhookData)
                = webhookData\<lparr>lastTimeChecked := Some (moment_now env)\<rparr>"
    using poll_automated_forward [OF assms, of creds api getTime ftm webhookData items]
    by simp
qed

theorem poll_automated_checkpoint_witness:
  "getMode example_env \<noteq> ''manual''
   \<and> poll example_clock example_media_types example_env (checked_at ''1970-01-01T00:00:02.000Z'')
       = (checked_at ''1970-01-01T00:00:05Z'', Inr None)
   \<and> lastTimeChecked (checked_at ''1970-01-01T00:00:05Z'') = Some (moment_now example_env)
   \<and> checkpoint_time example_clock (checked_at ''1970-01-01T00:00:02.000Z'') = Some 2000
   \<and> checkpoint_time example_clock (checked_at ''1970-01-01T00:00:05Z'') = Some 5000
   \<and> getCredentials example_env = Inr \<lparr>oauthToken = Some ''good-token''\<rparr>
   \<and> initializeYandexDiskApi \<lparr>oauthToken = Some ''good-token''\<rparr> = Inr ''good-token''
   \<and> fetchAndFilter example_clock example_media_types example_env ''good-token''
        (startDateOf (checked_at ''1970-01-01T00:00:02.000Z'') (moment_now example_env))
        (moment_now example_env) = Inr []
   \<and> fst (poll example_clock example_media_types example_env
             (checked_at ''1970-01-01T00:00:02.000Z''))
       = (checked_at ''1970-01-01T00:00:02.000Z'')\<lparr>lastTimeChecked := Some (moment_now example_env)\<rparr>"
proof -
  have m: "getMode example_env \<noteq> ''manual''"
    by (simp add: example_env_def)
  note p = example_poll_empty
  have c: "getCredentials example_env = Inr \<lparr>oauthToken = Some ''good-token''\<rparr>"
    by (simp add: example_env_def)
  have i: "initializeYandexDiskApi \<lparr>oauthToken = Some ''good-token''\<rparr> = Inr ''good-token''"
    by (simp add: initializeYandexDiskApi_def)
  have n: "moment_now example_env = ''1970-01-01T00:00:05Z''"
    by (simp add: example_env_def)
  have f: "fetchAndFilter example_clock example_media_types example_env ''good-token''
        (startDateOf (checked_at ''1970-01-01T00:00:02.000Z'') (moment_now example_env))
        (moment_now example_env) = Inr []"
    by (simp add: n startDateOf_def checked_at_def example_fetch_empty)
  have t: "checkpoint_time example_clock (checked_at ''1970-01-01T00:00:02.000Z'') = Some 2000
           \<and> checkpoint_time example_clock (checked_at ''1970-01-01T00:00:05Z'') = Some 5000"
    by (simp add: checkpoint_time_def checked_at_def example_clock_def)
  show ?thesis
    using m p c i f t
      poll_automated_checkpoint
        [OF m, of example_clock example_media_types "checked_at ''1970-01-01T00:00:02.000Z''"
           "checked_at ''1970-01-01T00:00:05Z''" None
           "\<lparr>oauthToken = Some ''good-token''\<rparr>" "''good-token''" "[]"]
    by (simp add: n checked_at_def)
qed

text \<open>
  C2. A manual invocation returns the static data as it found them, whether it returns
  a batch or throws; hence the static data after any run are those after the run's
  automated cycles alone.
\<close>

theorem poll_manual_isolated:
  "(getMode env = ''manual'' \<longrightarrow> fst (poll getTime ftm env webhookData) = webhookData)
   \<and> run getTime ftm envs webhookData
       = run getTime ftm (filter (\<lambda>e. getMode e \<noteq> ''manual'') envs) webhookData"
proof
  show "getMode env = ''manual'' \<longrightarrow> fst (poll getTime ftm env webhookData) = webhookData"
    by (simp add: poll_manual_state)
next
  show "run getTime ftm envs webhookData
       = run getTime ftm (filter (\<lambda>e. getMode e \<noteq> ''manual'') envs) webhookData"
    by (induction envs arbitrary: webhookData) (simp_all add: poll_manual_state)
qed

theorem poll_manual_isolated_witness:
  "getMode (example_env\<lparr>getMode := ''manual''\<rparr>) = ''manual''
   \<and> poll example_clock example_media_types (example_env\<lparr>getMode := ''manual''\<rparr>)
        (checked_at ''1970-01-01T00:00:02.000Z'')
      = (checked_at ''1970-01-01T00:00:02.000Z'', Inr (Some [[Json item_same]]))
   \<and> run example_clock example_media_types
        [example_env\<lparr>getMode := ''manual''\<rparr>, example_env,
         example_env\<lparr>getMode := ''manual'', moment_now := ''1970-01-01T00:00:09Z''\<rparr>]
        (checked_at ''1970-01-01T00:00:02.000Z'')
      = checked_at ''1970-01-01T00:00:05Z''"
proof -
  have p: "poll example_clock example_media_types (example_env\<lparr>getMode := ''manual''\<rparr>)
        (checked_at ''1970-01-01T00:00:02.000Z'')
      = (checked_at ''1970-01-01T00:00:02.000Z'', Inr (Some [[Json item_same]]))"
    by (simp add: poll_defs poll_example_defs)
  note a = example_poll_empty
  show ?thesis
    using p poll_manual_isolated
      [of "example_env\<lparr>getMode := ''manual''\<rparr>" example_clock example_media_types
          "checked_at ''1970-01-01T00:00:02.000Z''"
          "[example_env\<lparr>getMode := ''manual''\<rparr>, example_env,
            example_env\<lparr>getMode := ''manual'', moment_now := ''1970-01-01T00:00:09Z''\<rparr>]"]
    by (simp add: example_env_def a [unfolded example_env_def])
qed

subsection \<open>Return value\<close>

text \<open>
  C3. An automated cycle whose request and filters complete returns \<open>null\<close> when they
  keep nothing and the array with the one batch of the kept items otherwise. Conversely
  an automated cycle that returns has run the request and the filters, and what it
  returns is one of these two: never an empty array or an empty batch.
\<close>

theorem poll_automated_result:
  assumes "getMode env \<noteq> ''manual''"
  shows "(getCredentials env = Inr creds \<and> initializeYandexDiskApi creds = Inr api
           \<and> fetchAndFilter getTime ftm env api
                (startDateOf webhookData (moment_now env)) (moment_now env) = Inr items
          \<longrightarrow> (items = [] \<longrightarrow> snd (poll getTime ftm env webhookData) = Inr None)
              \<and> (items \<noteq> []
                   \<longrightarrow> snd (poll getTime ftm env webhookData)
                         = Inr (Some [returnJsonArray items])))
         \<and> (poll getTime ftm env webhookData = (webhookData', Inr result)
          \<longrightarrow> (\<exists>creds api items.
                 getCredentials env = Inr creds \<and> initializeYandexDiskApi creds = Inr api
                 \<and> fetchAndFilter getTime ftm env api
                      (startDateOf webhookData (moment_now env)) (moment_now env) = Inr items
                 \<and> (items = [] \<longrightarrow> result = None)
                 \<and> (items \<noteq> [] \<longrightarrow> result = Some [returnJsonArray items])
                 \<and> result \<noteq> Some [] \<and> result \<noteq> Some [[]]))"
proof (intro conjI impI)
  assume h: "getCredentials env = Inr creds \<and> initializeYandexDiskApi creds = Inr api
           \<and> fetchAndFilter getTime ftm env api
                (startDateOf webhookData (moment_now env)) (moment_now env) = Inr items"
  assume "items = []"
  with h show "snd (poll getTime ftm env webhookData) = Inr None"
    using poll_automated_forward [OF assms, of creds api getTime ftm webhookData items]
    by simp
next
  assume h: "getCredentials env = Inr creds \<and> initializeYandexDiskApi creds = Inr api
           \<and> fetchAndFilter getTime ftm env api
                (startDateOf webhookData (moment_now env)) (moment_now env) = Inr items"
  assume "items \<noteq> []"
  with h show "snd (poll getTime ftm env webhookData) = Inr (Some [returnJsonArray items])"
    using poll_automated_forward [OF assms, of creds api getTime ftm webhookData items]
    by simp
next
  assume p: "poll getTime ftm env webhookData = (webhookData', Inr result)"
  show "\<exists>creds api items.
          getCredentials env = Inr creds \<and> initializeYandexDiskApi creds = Inr api
          \<and> fetchAndFilter getTime ftm env api
               (startDateOf webhookData (moment_now env)) (moment_now env) = Inr items
          \<and> (items = [] \<longrightarrow> result = None)
          \<and> (items \<noteq> [] \<longrightarrow> result = Some [returnJsonArray items])
          \<and> result \<noteq> Some [] \<and> result \<noteq> Some [[]]"
    using poll_automated_success [OF assms p] by (auto simp: returnJsonArray_def)
qed

theorem poll_automated_result_witness:
  "getMode example_env \<noteq> ''manual''
   \<and> getCredentials example_env = Inr \<lparr>oauthToken = Some ''good-token''\<rparr>
   \<and> initializeYandexDiskApi \<lparr>oauthToken = Some ''good-token''\<rparr> = Inr ''good-token''
   \<and> fetchAndFilter example_clock example_media_types example_env ''good-token''
        (startDateOf (checked_at ''1970-01-01T00:00:02.000Z'') (moment_now example_env))
        (moment_now example_env) = Inr []
   \<and> snd (poll example_clock example_media_types example_env
             (checked_at ''1970-01-01T00:00:02.000Z'')) = Inr None
   \<and> fetchAndFilter example_clock example_media_types example_env ''good-token''
        (startDateOf (checked_at ''1970-01-01T00:00:00.500Z'') (moment_now example_env))
        (moment_now example_env) = Inr [item_late]
   \<and> [item_late] \<noteq> []
   \<and> snd (poll example_clock example_media_types example_env
             (checked_at ''1970-01-01T00:00:00.500Z'')) = Inr (Some [[Json item_late]])
   \<and> poll example_clock example_media_types example_env (checked_at ''1970-01-01T00:00:02.000Z'')
       = (checked_at ''1970-01-01T00:00:05Z'', Inr None)"
proof -
  have m: "getMode example_env \<noteq> ''manual''"
    by (simp add: example_env_def)
  have c: "getCredentials example_env = Inr \<lparr>oauthToken = Some ''good-token''\<rparr>"
    by (simp add: example_env_def)
  have i: "initializeYandexDiskApi \<lparr>oauthToken = Some ''good-token''\<rparr> = Inr ''good-token''"
    by (simp add: initializeYandexDiskApi_def)
  have n: "moment_now example_env = ''1970-01-01T00:00:05Z''"
    by (simp add: example_env_def)
  have e: "fetchAndFilter example_clock example_media_types example_env ''good-token''
        (startDateOf (checked_at ''1970-01-01T00:00:02.000Z'') (moment_now example_env))
        (moment_now example_env) = Inr []"
    by (simp add: n startDateOf_def checked_at_def example_fetch_empty)
  have f: "fetchAndFilter example_clock example_media_types example_env ''good-token''
        (startDateOf (checked_at ''1970-01-01T00:00:00.500Z'') (moment_now example_env))
        (moment_now example_env) = Inr [item_late]"
    by (simp add: poll_defs poll_example_defs example_defs filterByModifiedTime_def
        filterByEventType_def filterByFileType_def applyLimit_def num_gt_def)
  note q = example_poll_empty
  show ?thesis
    using m c i e f q
      poll_automated_result
        [OF m, of "\<lparr>oauthToken = Some ''good-token''\<rparr>" "''good-token''" example_clock
           example_media_types "checked_at ''1970-01-01T00:00:02.000Z''" "[]"
           "checked_at ''1970-01-01T00:00:05Z''" None]
      poll_automated_result
        [OF m, of "\<lparr>oauthToken = Some ''good-token''\<rparr>" "''good-token''" example_clock
           example_media_types "checked_at ''1970-01-01T00:00:00.500Z''" "[item_late]"]
    by (simp add: returnJsonArray_def)
qed

subsection \<open>Failures\<close>

text \<open>
  C9. When the request of an automated cycle fails, \<open>poll\<close> throws one
  \<open>NodeApiError\<close> and the static data keep their value. Whenever \<open>poll\<close> throws, the
  thrown value is a \<open>NodeApiError\<close> or a \<open>NodeOperationError\<close> and the static data are
  unchanged: the checkpoint changes only in a cycle that returns.
\<close>

theorem poll_automated_abort:
  assumes "getMode env \<noteq> ''manual''"
  shows "(getCredentials env = Inr creds \<and> initializeYandexDiskApi creds = Inr api
           \<and> sdk_recent env api (recentOptionsOf ftm (param_options env)) = Inl err
          \<longrightarrow> poll getTime ftm env webhookData =
                (webhookData,
                 Inl (NodeApiError ''Failed to fetch recent files from Yandex Disk''
                        (Some ''Check your OAuth credentials and configuration''))))
         \<and> (poll getTime ftm env webhookData = (webhookData', Inl e)
          \<longrightarrow> webhookData' = webhookData
              \<and> ((\<exists>m d. e = NodeApiError m d) \<or> (\<exists>m. e = NodeOperationError m)))
         \<and> (fst (poll getTime ftm env webhookData) \<noteq> webhookData
          \<longrightarrow> (\<exists>result. snd (poll getTime ftm env webhookData) = Inr result))"
proof (intro conjI impI)
  assume "getCredentials env = Inr creds \<and> initializeYandexDiskApi creds = Inr api
           \<and> sdk_recent env api (recentOptionsOf ftm (param_options env)) = Inl err"
  then show "poll getTime ftm env webhookData =
                (webhookData,
                 Inl (NodeApiError ''Failed to fetch recent files from Yandex Disk''
                        (Some ''Check your OAuth credentials and configuration'')))"
    using assms poll_fetch_failure by blast
next
  assume "poll getTime ftm env webhookData = (webhookData', Inl e)"
  then show "webhookData' = webhookData"
    by (rule poll_error_state)
next
  assume "poll getTime ftm env webhookData = (webhookData', Inl e)"
  then show "(\<exists>m d. e = NodeApiError m d) \<or> (\<exists>m. e = NodeOperationError m)"
    by (rule poll_error_class)
next
  assume c: "fst (poll getTime ftm env webhookData) \<noteq> webhookData"
  show "\<exists>result. snd (poll getTime ftm env webhookData) = Inr result"
  proof (cases "snd (poll getTime ftm env webhookData)")
    case (Inl e)
    then have "poll getTime ftm env webhookData = (fst (poll getTime ftm env webhookData), Inl e)"
      by (metis prod.collapse)
    then have "fst (poll getTime ftm env webhookData) = webhookData"
      by (rule poll_error_state)
    with c show ?thesis by contradiction
  next
    case (Inr r)
    then show ?thesis by blast
  qed
qed

theorem poll_automated_abort_witness:
  "getMode (example_env\<lparr>getCredentials := Inr \<lparr>oauthToken = Some ''expired''\<rparr>\<rparr>) \<noteq> ''manual''
   \<and> sdk_recent (example_env\<lparr>getCredentials := Inr \<lparr>oauthToken = Some ''expired''\<rparr>\<rparr>) ''expired''
        (recentOptionsOf example_media_types
           (param_options (example_env\<lparr>getCredentials := Inr \<lparr>oauthToken = Some ''expired''\<rparr>\<rparr>)))
      = Inl (Error ''401 Unauthorized'')
   \<and> poll example_clock example_media_types
        (example_env\<lparr>getCredentials := Inr \<lparr>oauthToken = Some ''expired''\<rparr>\<rparr>)
        (checked_at ''1970-01-01T00:00:02.000Z'')
      = (checked_at ''1970-01-01T00:00:02.000Z'',
         Inl (NodeApiError ''Failed to fetch recent files from Yandex Disk''
                (Some ''Check your OAuth credentials and configuration'')))
   \<and> getMode example_env \<noteq> ''manual''
   \<and> fst (poll example_clock example_media_types example_env
             (checked_at ''1970-01-01T00:00:02.000Z''))
       \<noteq> checked_at ''1970-01-01T00:00:02.000Z''
   \<and> snd (poll example_clock example_media_types example_env
             (checked_at ''1970-01-01T00:00:02.000Z'')) = Inr None"
proof -
  let ?env = "example_env\<lparr>getCredentials := Inr \<lparr>oauthToken = Some ''expired''\<rparr>\<rparr>"
  have m: "getMode ?env \<noteq> ''manual''"
    by (simp add: example_env_def)
  have c: "getCredentials ?env = Inr \<lparr>oauthToken = Some ''expired''\<rparr>"
    by simp
  have i: "initializeYandexDiskApi \<lparr>oauthToken = Some ''expired''\<rparr> = Inr ''expired''"
    by (simp add: initializeYandexDiskApi_def)
  have r: "sdk_recent ?env ''expired'' (recentOptionsOf example_media_types (param_options ?env))
           = Inl (Error ''401 Unauthorized'')"
    by (simp add: example_env_def example_recent_def)
  have m': "getMode example_env \<noteq> ''manual''"
    by (simp add: example_env_def)
  have d: "checked_at ''1970-01-01T00:00:05Z'' \<noteq> checked_at ''1970-01-01T00:00:02.000Z''"
    by (simp add: checked_at_def)
  show ?thesis
    using m c i r m' d
      poll_automated_abort [OF m, of "\<lparr>oauthToken = Some ''expired''\<rparr>" "''expired''"
        example_media_types "Error ''401 Unauthorized''" example_clock
        "checked_at ''1970-01-01T00:00:02.000Z''" "checked_at ''1970-01-01T00:00:02.000Z''"
        "NodeApiError ''Failed to fetch recent files from Yandex Disk''
                (Some ''Check your OAuth credentials and configuration'')"]
      poll_automated_abort [OF m', of _ _ example_media_types _ example_clock
        "checked_at ''1970-01-01T00:00:02.000Z''"]
    by (simp add: example_poll_empty)
qed

end
